theory Spec2Isabelle
  imports Complex_Main "HOL-Library.Sublist"
begin

section \<open>Expense tracker: data model\<close>

text \<open>
  The program (\<^verbatim>\<open>expense_tracker.py\<close>) keeps its records in a pandas table
  \<^verbatim>\<open>self.df\<close> with the columns \<^verbatim>\<open>Date, Category, Amount, Description\<close> and an optional
  filtered copy \<^verbatim>\<open>self.filtered_df\<close>. A table is modelled as the list of its rows, in row
  order.

  The \<^verbatim>\<open>Amount\<close> column holds Python floats. A float is modelled as an exact rational
  number or one of the three special values; sums and roundings of finite values are
  exact in the model (no rounding error, no overflow to infinity). What the claims below
  say about amounts depends only on which values are finite, infinite or NaN, on equality
  and on rounding to two decimals.
\<close>

datatype amount = Fin rat | PInf | NInf | NaN

text \<open>
  The \<^verbatim>\<open>Date\<close> column holds the ISO text of a date (\<^verbatim>\<open>strftime(DATE_FMT)\<close>), or
  pandas' missing value (\<open>None\<close> here) after \<^verbatim>\<open>load_csv\<close> met a cell it could not convert.
\<close>

record expense =
  Date :: "string option"
  Category :: string
  Amount :: amount
  Description :: string

subsection \<open>Float operations the program uses\<close>


text \<open>Float addition: an infinity absorbs finite values, opposite infinities give NaN.\<close>

fun fadd :: "amount \<Rightarrow> amount \<Rightarrow> amount" where
  "fadd NaN b = NaN"
| "fadd a NaN = NaN"
| "fadd (Fin a) (Fin b) = Fin (a + b)"
| "fadd (Fin a) b = b"
| "fadd a (Fin b) = a"
| "fadd PInf PInf = PInf"
| "fadd NInf NInf = NInf"
| "fadd PInf NInf = NaN"
| "fadd NInf PInf = NaN"

text \<open>Float \<^verbatim>\<open>==\<close>: NaN equals nothing, not even itself.\<close>

definition float_eq :: "amount \<Rightarrow> amount \<Rightarrow> bool" where
  "float_eq a b = (a \<noteq> NaN \<and> b \<noteq> NaN \<and> a = b)"

text \<open>
  \<^verbatim>\<open>Series.round(2)\<close>: the nearest multiple of 0.01, a tie going to the even one
  (\<^verbatim>\<open>rint(x * 100) / 100\<close>); infinities and NaN stay.
\<close>

definition rint :: "rat \<Rightarrow> int" where
  "rint q =
     (let f = \<lfloor>q\<rfloor>; d = q - of_int f
      in if d < 1 / 2 then f else if 1 / 2 < d then f + 1 else if even f then f else f + 1)"

fun round2 :: "amount \<Rightarrow> amount" where
  "round2 (Fin q) = Fin (of_int (rint (q * 100)) / 100)"
| "round2 a = a"

text \<open>\<^verbatim>\<open>Series.fillna(v)\<close> on one value.\<close>

definition fillna :: "amount \<Rightarrow> amount \<Rightarrow> amount" where
  "fillna v a = (if a = NaN then v else a)"

section \<open>Totals (\<^verbatim>\<open>refresh_table\<close>, lines 191-193)\<close>

text \<open>
  \<^verbatim>\<open>
  amounts = pd.to_numeric(view["Amount"], errors="coerce").fillna(0.0).to_numpy()
  total = float(np.nansum(amounts)) if amounts.size else 0.0
  \<close>
  The column already holds floats, so \<^verbatim>\<open>to_numeric\<close> returns it as it is.
  \<^verbatim>\<open>np.nansum\<close> replaces every NaN of its argument by 0 and adds the values up.
\<close>

definition nansum :: "amount list \<Rightarrow> amount" where
  "nansum xs = foldl fadd (Fin 0) (map (fillna (Fin 0)) xs)"

definition total_of :: "expense list \<Rightarrow> amount" where
  "total_of view =
     (let amounts = map (fillna (Fin 0)) (map Amount view)
      in if amounts \<noteq> [] then nansum amounts else Fin 0)"





section \<open>Application state and the view (\<^verbatim>\<open>get_view_df\<close>, \<^verbatim>\<open>refresh_table\<close>, \<^verbatim>\<open>clear_filter\<close>)\<close>

text \<open>
  A row of the Treeview as \<^verbatim>\<open>on_delete\<close> reads it back with
  \<^verbatim>\<open>self.tree.item(item, "values")\<close>: the texts of the date, the category and the
  description, and the number that \<^verbatim>\<open>float(vals[2])\<close> makes of the amount's text.
\<close>

record row_values =
  v_date :: string
  v_category :: string
  v_amount :: amount
  v_description :: string

text \<open>
  The fields of \<^verbatim>\<open>ExpenseTracker\<close> that the modelled methods read or write: the two
  tables, the three filter entries, the rows shown in the Treeview and the total shown
  under it. The line of totals by category, which \<^verbatim>\<open>refresh_table\<close> also writes, is not
  part of the model.
\<close>

record state =
  df :: "expense list"
  filtered_df :: "expense list option"
  from_var :: string
  to_var :: string
  filter_cat_var :: string
  tree :: "row_values list"
  total_var :: amount

definition get_view_df :: "state \<Rightarrow> expense list" where
  "get_view_df st = (case filtered_df st of Some v \<Rightarrow> v | None \<Rightarrow> df st)"

text \<open>
  \<^verbatim>\<open>values = [row["Date"], row["Category"], f"{row['Amount']:.2f}", row["Description"]]\<close>
  A missing date is shown as the text \<^verbatim>\<open>nan\<close>; the amount is shown with two decimals,
  so the number read back from the text is the amount rounded to two decimals.
\<close>

definition shown :: "expense \<Rightarrow> row_values" where
  "shown r =
     \<lparr>v_date = (case Date r of Some s \<Rightarrow> s | None \<Rightarrow> ''nan''), v_category = Category r,
      v_amount = round2 (Amount r), v_description = Description r\<rparr>"

definition refresh_table :: "state \<Rightarrow> state" where
  "refresh_table st =
     (let view = get_view_df st
      in st\<lparr>tree := map shown view, total_var := total_of view\<rparr>)"

definition clear_filter :: "state \<Rightarrow> state" where
  "clear_filter st =
     refresh_table (st\<lparr>from_var := [], to_var := [], filter_cat_var := ''All'',
       filtered_df := None\<rparr>)"

section \<open>Deleting the selected rows (\<^verbatim>\<open>on_delete\<close>)\<close>

text \<open>
  The mask of one selected row over the view:
  \<^verbatim>\<open>
  (view["Date"] == vals[0]) & (view["Category"] == vals[1]) &
  (view["Amount"].astype(float).round(2) == float(vals[2])) & (view["Description"] == vals[3])
  \<close>
  A missing date equals no text.
\<close>

definition matches :: "row_values \<Rightarrow> expense \<Rightarrow> bool" where
  "matches vals r =
     (Date r = Some (v_date vals) \<and> Category r = v_category vals \<and>
      float_eq (round2 (Amount r)) (v_amount vals) \<and> Description r = v_description vals)"

text \<open>\<^verbatim>\<open>idx = np.where(mask.to_numpy())[0]\<close>: the positions where the mask holds, ascending.\<close>

definition where_mask :: "row_values \<Rightarrow> expense list \<Rightarrow> nat list" where
  "where_mask vals view = filter (\<lambda>i. matches vals (view ! i)) [0..<length view]"

text \<open>
  The loop over the selection: \<^verbatim>\<open>if idx.size: indices_to_drop.append(idx[0])\<close>.
\<close>

fun indices_to_drop :: "row_values list \<Rightarrow> expense list \<Rightarrow> nat list" where
  "indices_to_drop [] view = []"
| "indices_to_drop (vals # sel) view =
     (case where_mask vals view of
        [] \<Rightarrow> indices_to_drop sel view
      | i # idx \<Rightarrow> i # indices_to_drop sel view)"







text \<open>
  Position \<open>i\<close> is the first row of the view that matches the selected values.
\<close>

definition first_match_at :: "row_values \<Rightarrow> expense list \<Rightarrow> nat \<Rightarrow> bool" where
  "first_match_at vals view i =
     (i < length view \<and> matches vals (view ! i) \<and> \<not> list_ex (\<lambda>j. matches vals (view ! j)) [0..<i])"

section \<open>Dates and the library functions the program calls\<close>

text \<open>
  A calendar date (\<^verbatim>\<open>datetime.date\<close>); dates are ordered by year, then month, then day.
\<close>

record date =
  year :: nat
  month :: nat
  day :: nat

definition date_le :: "date \<Rightarrow> date \<Rightarrow> bool" where
  "date_le a b =
     (year a < year b \<or> (year a = year b \<and> (month a < month b \<or> (month a = month b \<and> day a \<le> day b))))"

text \<open>
  A cell of the table that \<^verbatim>\<open>pd.read_csv\<close> returns: missing (an empty field), a text, or a
  number.
\<close>

datatype cell = Missing | Text string | Number amount

text \<open>
  The parsers and printers of the Python standard library and of pandas are not part of
  the program. The model takes them as a parameter, so every theorem below holds for
  whatever they compute:
  \<^item> \<open>strptime s f\<close>: \<^verbatim>\<open>datetime.strptime(s, f).date()\<close>, \<open>None\<close> where it raises
    \<^verbatim>\<open>ValueError\<close>;
  \<^item> \<open>to_datetime c\<close>: the date \<^verbatim>\<open>pd.to_datetime\<close> makes of a cell that is not missing,
    \<open>None\<close> where it cannot convert the cell;
  \<^item> \<open>strftime d\<close>: \<^verbatim>\<open>d.strftime(DATE_FMT)\<close>;
  \<^item> \<open>to_float s\<close>: the number \<^verbatim>\<open>pd.to_numeric\<close> reads from a text, \<open>None\<close> where it
    cannot;
  \<^item> \<open>str_of_float a\<close>: the text \<^verbatim>\<open>astype(str)\<close> makes of a number.
\<close>

record library =
  strptime :: "string \<Rightarrow> string \<Rightarrow> date option"
  to_datetime :: "cell \<Rightarrow> date option"
  strftime :: "date \<Rightarrow> string"
  to_float :: "string \<Rightarrow> amount option"
  str_of_float :: "amount \<Rightarrow> string"

text \<open>
  The exceptions the modelled methods raise or catch: the \<^verbatim>\<open>ValueError\<close> at the end of
  \<^verbatim>\<open>parse_date\<close>, an exception of \<^verbatim>\<open>pd.to_datetime\<close> on the \<^verbatim>\<open>Date\<close> column in
  \<^verbatim>\<open>apply_filter\<close>, and the \<^verbatim>\<open>ValueError\<close> of \<^verbatim>\<open>load_csv\<close> with the list of missing
  columns.
\<close>

datatype error = InvalidDateFormat | ConversionError | MissingColumns "string list"

subsection \<open>\<^verbatim>\<open>parse_date\<close>\<close>

text \<open>\<^verbatim>\<open>str.strip()\<close>: white space is removed at both ends (the ASCII white space here).\<close>

definition is_space :: "char \<Rightarrow> bool" where
  "is_space c = (c \<in> set [CHR '' '', CHR 0x09, CHR 0x0A, CHR 0x0B, CHR 0x0C, CHR 0x0D,
     CHR 0x1C, CHR 0x1D, CHR 0x1E, CHR 0x1F])"

definition strip :: "string \<Rightarrow> string" where
  "strip s = rev (dropWhile is_space (rev (dropWhile is_space s)))"

definition fmts :: "string list" where
  "fmts = [''%Y-%m-%d'', ''%d-%m-%Y'', ''%d/%m/%Y'', ''%Y/%m/%d'', ''%d %b %Y'', ''%d %B %Y'']"

text \<open>The loop over the formats: the first one that parses wins, none raises.\<close>

fun try_fmts :: "library \<Rightarrow> string \<Rightarrow> string list \<Rightarrow> error + date" where
  "try_fmts lib s [] = Inl InvalidDateFormat"
| "try_fmts lib s (f # fs) =
     (case strptime lib s f of Some d \<Rightarrow> Inr d | None \<Rightarrow> try_fmts lib s fs)"

text \<open>The empty text gives Python's \<^verbatim>\<open>None\<close>, here \<open>Inr None\<close>.\<close>

definition parse_date :: "library \<Rightarrow> string \<Rightarrow> error + date option" where
  "parse_date lib s0 =
     (let s = strip s0
      in if s = [] then Inr None
         else (case try_fmts lib s fmts of Inl e \<Rightarrow> Inl e | Inr d \<Rightarrow> Inr (Some d)))"

section \<open>Filtering (\<^verbatim>\<open>apply_filter\<close>)\<close>

text \<open>
  \<^verbatim>\<open>pd.to_datetime(df["Date"]).dt.date\<close>: a missing date stays missing, a text is
  converted, and the call raises as soon as one text cannot be converted.
\<close>

fun dates_of :: "library \<Rightarrow> expense list \<Rightarrow> error + date option list" where
  "dates_of lib [] = Inr []"
| "dates_of lib (r # rs) =
     (case (case Date r of None \<Rightarrow> Inr None
            | Some s \<Rightarrow> (case to_datetime lib (Text s) of None \<Rightarrow> Inl ConversionError
                          | Some d \<Rightarrow> Inr (Some d))) of
        Inl e \<Rightarrow> Inl e
      | Inr d \<Rightarrow> (case dates_of lib rs of Inl e \<Rightarrow> Inl e | Inr ds \<Rightarrow> Inr (d # ds)))"

text \<open>
  The comparison of the date column with a bound, \<^verbatim>\<open>... >= fdate\<close> and \<^verbatim>\<open>... <= tdate\<close>: a
  missing date compares false, and so does every date when the bound is \<^verbatim>\<open>None\<close>.
\<close>

definition ge_bound :: "date option \<Rightarrow> date option \<Rightarrow> bool" where
  "ge_bound bound d =
     (case d of None \<Rightarrow> False
      | Some x \<Rightarrow> (case bound of None \<Rightarrow> False | Some b \<Rightarrow> date_le b x))"

definition le_bound :: "date option \<Rightarrow> date option \<Rightarrow> bool" where
  "le_bound bound d =
     (case d of None \<Rightarrow> False
      | Some x \<Rightarrow> (case bound of None \<Rightarrow> False | Some b \<Rightarrow> date_le x b))"

text \<open>\<^verbatim>\<open>df[mask]\<close>: the rows where the mask holds, in order.\<close>

definition select_rows :: "'a list \<Rightarrow> bool list \<Rightarrow> 'a list" where
  "select_rows rs flags = map fst (filter snd (zip rs flags))"

definition date_filter ::
  "library \<Rightarrow> (date option \<Rightarrow> bool) \<Rightarrow> expense list \<Rightarrow> error + expense list" where
  "date_filter lib cmp rs =
     (case dates_of lib rs of Inl e \<Rightarrow> Inl e | Inr ds \<Rightarrow> Inr (select_rows rs (map cmp ds)))"

text \<open>
  The body of the \<^verbatim>\<open>try\<close> block up to the filtered table. A raised exception is the
  \<open>Inl\<close> result; the table \<^verbatim>\<open>df\<close> is a copy, the program's state is not touched.
\<close>

definition filter_df :: "library \<Rightarrow> state \<Rightarrow> error + expense list" where
  "filter_df lib st =
     (let df0 = df st;
          f = strip (from_var st);
          t = strip (to_var st);
          c = filter_cat_var st
      in case (if f \<noteq> []
               then (case parse_date lib f of Inl e \<Rightarrow> Inl e
                     | Inr fdate \<Rightarrow> date_filter lib (ge_bound fdate) df0)
               else Inr df0) of
           Inl e \<Rightarrow> Inl e
         | Inr df1 \<Rightarrow>
             (case (if t \<noteq> []
                    then (case parse_date lib t of Inl e \<Rightarrow> Inl e
                          | Inr tdate \<Rightarrow> date_filter lib (le_bound tdate) df1)
                    else Inr df1) of
                Inl e \<Rightarrow> Inl e
              | Inr df2 \<Rightarrow>
                  Inr (if c \<noteq> [] \<and> c \<noteq> ''All'' then filter (\<lambda>r. Category r = c) df2 else df2)))"

text \<open>
  \<^verbatim>\<open>apply_filter\<close>: on success the filtered table is stored and the Treeview refreshed; an
  exception is caught and shown in the \<^verbatim>\<open>Filter Error\<close> dialog (the first component).
\<close>

definition apply_filter :: "library \<Rightarrow> state \<Rightarrow> error option \<times> state" where
  "apply_filter lib st =
     (case filter_df lib st of
        Inl e \<Rightarrow> (Some e, st)
      | Inr v \<Rightarrow> (None, refresh_table (st\<lparr>filtered_df := Some v\<rparr>)))"

text \<open>
  The filter criteria as the specification has them: an optional lower bound, an optional
  upper bound and an optional category. An entry that is empty after \<^verbatim>\<open>strip\<close> is no
  bound; the category \<^verbatim>\<open>All\<close> (or the empty text) is no constraint.
\<close>

definition bound_of :: "library \<Rightarrow> string \<Rightarrow> error + date option" where
  "bound_of lib s = (if strip s = [] then Inr None else parse_date lib (strip s))"

definition category_of :: "string \<Rightarrow> string option" where
  "category_of c = (if c = [] \<or> c = ''All'' then None else Some c)"

text \<open>The calendar date of a stored record, and the criteria as a predicate on records.\<close>

definition record_date :: "library \<Rightarrow> expense \<Rightarrow> date option" where
  "record_date lib r = (case Date r of None \<Rightarrow> None | Some s \<Rightarrow> to_datetime lib (Text s))"

definition satisfies ::
  "library \<Rightarrow> date option \<Rightarrow> date option \<Rightarrow> string option \<Rightarrow> expense \<Rightarrow> bool" where
  "satisfies lib lo hi cat r =
     ((case lo of None \<Rightarrow> True
       | Some a \<Rightarrow> (case record_date lib r of None \<Rightarrow> False | Some d \<Rightarrow> date_le a d)) \<and>
      (case hi of None \<Rightarrow> True
       | Some b \<Rightarrow> (case record_date lib r of None \<Rightarrow> False | Some d \<Rightarrow> date_le d b)) \<and>
      (case cat of None \<Rightarrow> True | Some c \<Rightarrow> Category r = c))"

text \<open>Every date text of the table is one that \<^verbatim>\<open>pd.to_datetime\<close> converts.\<close>

definition convertible :: "library \<Rightarrow> expense list \<Rightarrow> bool" where
  "convertible lib rs =
     list_all (\<lambda>r. case Date r of None \<Rightarrow> True | Some s \<Rightarrow> to_datetime lib (Text s) \<noteq> None) rs"

section \<open>Loading a CSV file (\<^verbatim>\<open>load_csv\<close>, \<^verbatim>\<open>on_load_csv\<close>)\<close>

text \<open>
  The table \<^verbatim>\<open>pd.read_csv(path)\<close> returns: the column names of the header and the rows,
  each a list of cells in the order of the columns. A row shorter than the header has
  missing cells at its end.
\<close>

record table =
  columns :: "string list"
  rows :: "cell list list"

definition DEFAULT_COLUMNS :: "string list" where
  "DEFAULT_COLUMNS = [''Date'', ''Category'', ''Amount'', ''Description'']"

definition cell_of :: "table \<Rightarrow> cell list \<Rightarrow> string \<Rightarrow> cell" where
  "cell_of tab row c = (case map_of (zip (columns tab) row) c of Some x \<Rightarrow> x | None \<Rightarrow> Missing)"

text \<open>
  \<^verbatim>\<open>pd.to_datetime(..., errors="coerce")\<close>, \<^verbatim>\<open>pd.to_numeric(..., errors="coerce")\<close>,
  \<^verbatim>\<open>fillna\<close> on a text column and \<^verbatim>\<open>astype(str)\<close>, each on one cell. What cannot be
  converted becomes the missing date or NaN.
\<close>

definition to_datetime_coerce :: "library \<Rightarrow> cell \<Rightarrow> date option" where
  "to_datetime_coerce lib c = (case c of Missing \<Rightarrow> None | _ \<Rightarrow> to_datetime lib c)"

definition to_numeric_coerce :: "library \<Rightarrow> cell \<Rightarrow> amount" where
  "to_numeric_coerce lib c =
     (case c of Missing \<Rightarrow> NaN
      | Number a \<Rightarrow> a
      | Text s \<Rightarrow> (case to_float lib s of Some a \<Rightarrow> a | None \<Rightarrow> NaN))"

definition fillna_cell :: "cell \<Rightarrow> cell \<Rightarrow> cell" where
  "fillna_cell v c = (case c of Missing \<Rightarrow> v | Number a \<Rightarrow> (if a = NaN then v else c) | _ \<Rightarrow> c)"

definition astype_str :: "library \<Rightarrow> cell \<Rightarrow> string" where
  "astype_str lib c =
     (case c of Text s \<Rightarrow> s | Number a \<Rightarrow> str_of_float lib a | Missing \<Rightarrow> ''nan'')"

text \<open>
  The four column assignments of \<^verbatim>\<open>load_csv\<close> work cell by cell, so the new table is built
  row by row here.
\<close>

definition decode_row :: "library \<Rightarrow> table \<Rightarrow> cell list \<Rightarrow> expense" where
  "decode_row lib tab row =
     \<lparr>Date = map_option (strftime lib) (to_datetime_coerce lib (cell_of tab row ''Date'')),
      Category = astype_str lib (fillna_cell (Text ''Other'') (cell_of tab row ''Category'')),
      Amount = fillna (Fin 0) (to_numeric_coerce lib (cell_of tab row ''Amount'')),
      Description = astype_str lib (fillna_cell (Text []) (cell_of tab row ''Description''))\<rparr>"

definition load_csv :: "library \<Rightarrow> table \<Rightarrow> error + expense list" where
  "load_csv lib tab =
     (let missing = filter (\<lambda>c. c \<notin> set (columns tab)) DEFAULT_COLUMNS
      in if missing \<noteq> [] then Inl (MissingColumns missing)
         else Inr (map (decode_row lib tab) (rows tab)))"

text \<open>
  \<^verbatim>\<open>on_load_csv\<close> after the file dialog, for a file that \<^verbatim>\<open>read_csv\<close> could read: the new
  table replaces the store and the filter is cleared; an exception of \<^verbatim>\<open>load_csv\<close> is
  shown in the \<^verbatim>\<open>Load Error\<close> dialog and nothing is assigned.
\<close>

definition on_load_csv :: "library \<Rightarrow> table \<Rightarrow> state \<Rightarrow> error option \<times> state" where
  "on_load_csv lib tab st =
     (case load_csv lib tab of
        Inl e \<Rightarrow> (Some e, st)
      | Inr d \<Rightarrow> (None, clear_filter (st\<lparr>df := d\<rparr>)))"

section \<open>Example data\<close>

text \<open>
  A small instance of the library for the examples below. It reads and prints dates in
  the form \<^verbatim>\<open>YYYY-MM-DD\<close> only (four, two and two digits), knows no other format, and reads
  a number only from a text of digits or from \<^verbatim>\<open>inf\<close>. No example has a number in a
  text column, so the text it makes of a number is a placeholder. The theorems do not
  depend on this instance; it serves to run the model on concrete inputs.
\<close>

definition digit_of :: "char \<Rightarrow> nat option" where
  "digit_of c = map_of (zip ''0123456789'' [0, 1, 2, 3, 4, 5, 6, 7, 8, 9]) c"

fun number_of :: "nat \<Rightarrow> string \<Rightarrow> nat option" where
  "number_of acc [] = Some acc"
| "number_of acc (c # cs) =
     (case digit_of c of None \<Rightarrow> None | Some d \<Rightarrow> number_of (10 * acc + d) cs)"

definition days_in_month :: "nat \<Rightarrow> nat \<Rightarrow> nat" where
  "days_in_month y m =
     (if m = 2 then (if y mod 4 = 0 \<and> (y mod 100 \<noteq> 0 \<or> y mod 400 = 0) then 29 else 28)
      else if m \<in> set [4, 6, 9, 11] then 30 else 31)"

definition iso_date :: "string \<Rightarrow> date option" where
  "iso_date s =
     (if length s = 10 \<and> s ! 4 = CHR ''-'' \<and> s ! 7 = CHR ''-'' then
        (case (number_of 0 (take 4 s), number_of 0 (take 2 (drop 5 s)), number_of 0 (drop 8 s)) of
           (Some y, Some m, Some d) \<Rightarrow>
             (if 1 \<le> y \<and> 1 \<le> m \<and> m \<le> 12 \<and> 1 \<le> d \<and> d \<le> days_in_month y m
              then Some \<lparr>year = y, month = m, day = d\<rparr> else None)
         | _ \<Rightarrow> None)
      else None)"

definition digits2 :: "nat \<Rightarrow> string" where
  "digits2 n = [''0123456789'' ! (n div 10 mod 10), ''0123456789'' ! (n mod 10)]"

definition digits4 :: "nat \<Rightarrow> string" where
  "digits4 n = digits2 (n div 100) @ digits2 n"

definition iso_text :: "date \<Rightarrow> string" where
  "iso_text d = digits4 (year d) @ ''-'' @ digits2 (month d) @ ''-'' @ digits2 (day d)"

definition example_library :: library where
  "example_library =
     \<lparr>strptime = (\<lambda>s f. if f = ''%Y-%m-%d'' then iso_date s else None),
      to_datetime = (\<lambda>c. case c of Text s \<Rightarrow> iso_date s | _ \<Rightarrow> None),
      strftime = iso_text,
      to_float = (\<lambda>s. if s = ''inf'' then Some PInf
                       else if s = [] then None
                       else map_option (\<lambda>n. Fin (of_nat n)) (number_of 0 s)),
      str_of_float = (\<lambda>a. ''?'')\<rparr>"

definition lunch :: expense where
  "lunch = \<lparr>Date = Some ''2025-01-05'', Category = ''Food'', Amount = Fin (25 / 2),
     Description = ''lunch''\<rparr>"

definition bus :: expense where
  "bus = \<lparr>Date = Some ''2025-01-06'', Category = ''Transport'', Amount = Fin 3,
     Description = ''bus''\<rparr>"


definition nodate :: expense where
  "nodate = \<lparr>Date = None, Category = ''Food'', Amount = Fin 4, Description = ''tea''\<rparr>"


text \<open>The same store with no filter, and with the category filter \<^verbatim>\<open>Food\<close> applied.\<close>

definition st_all :: state where
  "st_all = \<lparr>df = [lunch, lunch, bus], filtered_df = None, from_var = [], to_var = [],
     filter_cat_var = ''All'', tree = map shown [lunch, lunch, bus], total_var = Fin 28\<rparr>"



text \<open>Filter entries that parse, and a lower bound that does not.\<close>

definition st_range :: state where
  "st_range = \<lparr>df = [lunch, bus, nodate], filtered_df = None, from_var = '' 2025-01-06'',
     to_var = [], filter_cat_var = ''All'', tree = map shown [lunch, bus, nodate],
     total_var = Fin (39 / 2)\<rparr>"



definition csv_no_amount :: table where
  "csv_no_amount =
     \<lparr>columns = [''Date'', ''Category'', ''Description''],
      rows = [[Text ''soon'', Text ''Food'', Text ''tea'']]\<rparr>"

section \<open>Facts about the sum\<close>









section \<open>Claims about the totals\<close>






section \<open>Facts about the deletion\<close>

lemma upt_split: "i < n \<Longrightarrow> [0..<n] = [0..<i] @ i # [Suc i..<n]"
proof -
  assume "i < n"
  then have "[0..<n] = [0..<i] @ [i..<n]"
    using upt_add_eq_append [of 0 i "n - i"] by simp
  with \<open>i < n\<close> show ?thesis by (simp add: upt_conv_Cons)
qed



lemma filter_upt_Cons:
  assumes "filter P [0..<n] = i # rest"
  shows "i < n \<and> P i \<and> (\<forall>j<i. \<not> P j)"
proof -
  from assms obtain us vs where
    split: "[0..<n] = us @ i # vs" and us: "\<forall>u\<in>set us. \<not> P u" and pi: "P i"
    by (auto simp: filter_eq_Cons_iff)
  have len: "length us < n"
    using arg_cong [OF split, of length] by simp
  have "[0..<n] ! length us = i" by (simp add: split)
  with len have i: "length us = i" by simp
  have "\<not> P j" if "j < i" for j
  proof -
    from that i have "us ! j = [0..<n] ! j" by (simp add: split nth_append)
    also from that i len have "\<dots> = j" by simp
    finally have "j \<in> set us" using that i by (metis nth_mem)
    with us show ?thesis by blast
  qed
  with len i pi show ?thesis by blast
qed

lemma filter_upt_first:
  assumes "i < n" "P i" "\<forall>j<i. \<not> P j"
  shows "\<exists>rest. filter P [0..<n] = i # rest"
proof -
  from assms(1) have "[0..<n] = [0..<i] @ i # [Suc i..<n]" by (rule upt_split)
  moreover from assms(3) have "filter P [0..<i] = []" by (auto simp: filter_empty_conv)
  ultimately show ?thesis using assms(2) by simp
qed

lemma where_mask_Cons:
  "where_mask vals view = i # idx \<Longrightarrow> first_match_at vals view i"
  unfolding where_mask_def first_match_at_def
  by (drule filter_upt_Cons) (auto simp: list_ex_iff)

lemma where_mask_first:
  assumes "first_match_at vals view i"
  shows "\<exists>idx. where_mask vals view = i # idx"
proof -
  let ?P = "\<lambda>i. matches vals (view ! i)"
  from assms have "i < length view" "?P i" "\<forall>j<i. \<not> ?P j"
    by (auto simp: first_match_at_def list_ex_iff)
  then have "\<exists>rest. filter ?P [0..<length view] = i # rest" by (rule filter_upt_first)
  then show ?thesis by (simp add: where_mask_def)
qed


lemma first_match_unique:
  assumes "first_match_at vals view i" "first_match_at vals view j"
  shows "i = j"
proof -
  from where_mask_first [OF assms(1)] obtain idx where a: "where_mask vals view = i # idx" ..
  from where_mask_first [OF assms(2)] obtain idx' where b: "where_mask vals view = j # idx'" ..
  from a b show ?thesis by simp
qed

lemma in_indices_to_drop:
  "i \<in> set (indices_to_drop sel view) \<longleftrightarrow> (\<exists>vals\<in>set sel. first_match_at vals view i)"
proof (induction sel)
  case Nil
  show ?case by simp
next
  case (Cons v sel)
  show ?case
  proof (cases "where_mask v view")
    case Nil
    have "\<not> first_match_at v view i"
    proof
      assume "first_match_at v view i"
      from where_mask_first [OF this] Nil show False by simp
    qed
    moreover from Nil have "indices_to_drop (v # sel) view = indices_to_drop sel view"
      by simp
    ultimately show ?thesis using Cons.IH by simp
  next
    case hit: (Cons k idx)
    then have fm: "first_match_at v view k" by (rule where_mask_Cons)
    have "first_match_at v view i \<longleftrightarrow> i = k"
      using fm first_match_unique [of v view i k] by blast
    moreover from hit have "indices_to_drop (v # sel) view = k # indices_to_drop sel view"
      by simp
    ultimately show ?thesis using Cons.IH by simp
  qed
qed


lemma indices_to_drop_less:
  "i \<in> set (indices_to_drop sel view) \<Longrightarrow> i < length view"
  by (auto simp: in_indices_to_drop first_match_at_def)












section \<open>Claims about deletion\<close>







section \<open>Facts about filtering and loading\<close>

lemma strip_idem: "strip (strip s) = strip s"
proof -
  define xs where "xs = dropWhile is_space s"
  define ys where "ys = rev (dropWhile is_space (rev xs))"
  define zs where "zs = rev (takeWhile is_space (rev xs))"
  have ys: "strip s = ys" by (simp add: strip_def ys_def xs_def)
  have "ys @ zs = rev (takeWhile is_space (rev xs) @ dropWhile is_space (rev xs))"
    by (simp only: ys_def zs_def rev_append)
  also have "\<dots> = rev (rev xs)" by (simp only: takeWhile_dropWhile_id)
  also have "\<dots> = xs" by simp
  finally have split: "xs = ys @ zs" by (rule sym)
  have front: "dropWhile is_space ys = ys"
  proof (cases ys)
    case Nil
    then show ?thesis by simp
  next
    case (Cons y us)
    with split have "xs \<noteq> []" and "hd xs = y" by simp_all
    with hd_dropWhile [of is_space s] have "\<not> is_space y" by (simp add: xs_def)
    with Cons show ?thesis by simp
  qed
  have rear: "dropWhile is_space (rev ys) = rev ys"
    by (simp add: ys_def)
  have "strip ys = rev (dropWhile is_space (rev (dropWhile is_space ys)))"
    by (simp only: strip_def)
  also have "\<dots> = ys" by (simp only: front rear rev_rev_ident)
  finally show ?thesis by (simp only: ys)
qed



lemma parse_date_strip_Some:
  assumes "strip s \<noteq> []" "parse_date lib (strip s) = Inr b"
  shows "b \<noteq> None"
  using assms by (auto simp: parse_date_def Let_def strip_idem split: sum.splits)

lemma dates_of_convertible:
  "convertible lib rs \<Longrightarrow> dates_of lib rs = Inr (map (record_date lib) rs)"
  by (induction rs) (auto simp: convertible_def record_date_def split: option.splits)

lemma select_rows_map: "select_rows rs (map p rs) = filter p rs"
  by (induction rs) (simp_all add: select_rows_def)

lemma date_filter_convertible:
  "convertible lib rs \<Longrightarrow>
   date_filter lib cmp rs = Inr (filter (\<lambda>r. cmp (record_date lib r)) rs)"
  using select_rows_map [of rs "\<lambda>r. cmp (record_date lib r)"]
  by (simp add: date_filter_def dates_of_convertible comp_def)

lemma convertible_filter: "convertible lib rs \<Longrightarrow> convertible lib (filter p rs)"
  by (simp add: convertible_def list_all_iff)


lemma satisfies_split:
  "satisfies lib lo hi cat r =
     ((lo = None \<or> ge_bound lo (record_date lib r)) \<and>
      (hi = None \<or> le_bound hi (record_date lib r)) \<and>
      (cat = None \<or> cat = Some (Category r)))"
  by (auto simp: satisfies_def ge_bound_def le_bound_def split: option.splits)

lemma filter_df_ok:
  assumes lo: "bound_of lib (from_var st) = Inr lo"
    and hi: "bound_of lib (to_var st) = Inr hi"
    and conv: "(lo = None \<and> hi = None) \<or> convertible lib (df st)"
  shows "filter_df lib st =
    Inr (filter (satisfies lib lo hi (category_of (filter_cat_var st))) (df st))"
proof -
  let ?f = "strip (from_var st)" and ?t = "strip (to_var st)"
  let ?c = "filter_cat_var st"
  let ?lo = "\<lambda>r. lo = None \<or> ge_bound lo (record_date lib r)"
  let ?hi = "\<lambda>r. hi = None \<or> le_bound hi (record_date lib r)"
  let ?cat = "\<lambda>r. category_of ?c = None \<or> category_of ?c = Some (Category r)"
  have step1: "(if ?f \<noteq> []
               then (case parse_date lib ?f of Inl e \<Rightarrow> Inl e
                     | Inr fdate \<Rightarrow> date_filter lib (ge_bound fdate) (df st))
               else Inr (df st)) = Inr (filter ?lo (df st))"
  proof (cases "?f = []")
    case True
    with lo have "lo = None" by (simp add: bound_of_def)
    with True show ?thesis by simp
  next
    case False
    with lo have p: "parse_date lib ?f = Inr lo" by (simp add: bound_of_def)
    with False have "lo \<noteq> None" by (rule parse_date_strip_Some)
    with conv have "convertible lib (df st)" by blast
    moreover from \<open>lo \<noteq> None\<close> have "?lo = (\<lambda>r. ge_bound lo (record_date lib r))"
      by (intro ext) auto
    ultimately have "date_filter lib (ge_bound lo) (df st) = Inr (filter ?lo (df st))"
      by (simp only: date_filter_convertible)
    with p False show ?thesis by simp
  qed
  have step2: "(if ?t \<noteq> []
               then (case parse_date lib ?t of Inl e \<Rightarrow> Inl e
                     | Inr tdate \<Rightarrow> date_filter lib (le_bound tdate) (filter ?lo (df st)))
               else Inr (filter ?lo (df st))) = Inr (filter ?hi (filter ?lo (df st)))"
  proof (cases "?t = []")
    case True
    with hi have "hi = None" by (simp add: bound_of_def)
    with True show ?thesis by simp
  next
    case False
    with hi have p: "parse_date lib ?t = Inr hi" by (simp add: bound_of_def)
    with False have "hi \<noteq> None" by (rule parse_date_strip_Some)
    with conv have "convertible lib (df st)" by blast
    then have "convertible lib (filter ?lo (df st))" by (rule convertible_filter)
    moreover from \<open>hi \<noteq> None\<close> have "?hi = (\<lambda>r. le_bound hi (record_date lib r))"
      by (intro ext) auto
    ultimately
    have "date_filter lib (le_bound hi) (filter ?lo (df st)) = Inr (filter ?hi (filter ?lo (df st)))"
      by (simp only: date_filter_convertible)
    with p False show ?thesis by simp
  qed
  have step3: "(if ?c \<noteq> [] \<and> ?c \<noteq> ''All'' then filter (\<lambda>r. Category r = ?c) rs else rs) =
      filter ?cat rs" for rs
    by (auto simp: category_of_def intro: filter_cong)
  have "filter_df lib st = Inr (filter ?cat (filter ?hi (filter ?lo (df st))))"
    unfolding filter_df_def Let_def step1 sum.case step2 step3 ..
  also have "filter ?cat (filter ?hi (filter ?lo (df st))) =
      filter (satisfies lib lo hi (category_of ?c)) (df st)"
    by (auto simp: satisfies_split intro: filter_cong)
  finally show ?thesis .
qed

lemma refresh_table_fields:
  "df (refresh_table st) = df st"
  "filtered_df (refresh_table st) = filtered_df st"
  "from_var (refresh_table st) = from_var st"
  "to_var (refresh_table st) = to_var st"
  "filter_cat_var (refresh_table st) = filter_cat_var st"
  "tree (refresh_table st) = map shown (get_view_df st)"
  "total_var (refresh_table st) = total_of (get_view_df st)"
  "get_view_df (refresh_table st) = get_view_df st"
  by (simp_all add: refresh_table_def get_view_df_def Let_def split: option.splits)


lemma iso_date_jan6: "iso_date ''2025-01-06'' = Some \<lparr>year = 2025, month = 1, day = 6\<rparr>"
  by (simp add: iso_date_def digit_of_def days_in_month_def)


section \<open>Claims about filtering\<close>

text \<open>
  C4. For every store and all valid criteria (each bound entry is empty or parses, giving
  the optional bounds \<open>lo\<close> and \<open>hi\<close>; the category entry gives the optional category),
  \<^verbatim>\<open>apply_filter\<close> succeeds and stores as the view exactly the records of the store whose
  date lies within the bounds, both inclusive and compared as calendar dates, and whose
  category equals the constraint when there is one. The view is a subsequence of the
  store in the store's order, and the store is not changed. A record without a date is
  in the view only when there is no date bound. The date texts of the store have to be
  dates for \<^verbatim>\<open>pd.to_datetime\<close> when a bound is given (the data model's invariant that
  every record has a valid calendar date).
\<close>

theorem C4_filter_is_order_preserving_selection:
  assumes lo: "bound_of lib (from_var st) = Inr lo"
    and hi: "bound_of lib (to_var st) = Inr hi"
    and conv: "(lo = None \<and> hi = None) \<or> convertible lib (df st)"
  defines "st' \<equiv> snd (apply_filter lib st)"
    and "view \<equiv> filter (satisfies lib lo hi (category_of (filter_cat_var st))) (df st)"
  shows "fst (apply_filter lib st) = None \<and>
    filtered_df st' = Some view \<and> get_view_df st' = view \<and>
    subseq view (df st) \<and>
    (\<forall>r. r \<in> set view \<longleftrightarrow>
       r \<in> set (df st) \<and> satisfies lib lo hi (category_of (filter_cat_var st)) r) \<and>
    df st' = df st \<and> tree st' = map shown view \<and> total_var st' = total_of view"
proof -
  from filter_df_ok [OF lo hi conv]
  have run: "apply_filter lib st = (None, refresh_table (st\<lparr>filtered_df := Some view\<rparr>))"
    by (simp add: apply_filter_def view_def)
  have "subseq view (df st)" by (simp add: view_def)
  moreover have "\<forall>r. r \<in> set view \<longleftrightarrow>
       r \<in> set (df st) \<and> satisfies lib lo hi (category_of (filter_cat_var st)) r"
    by (simp add: view_def)
  ultimately show ?thesis using run
    by (simp add: st'_def refresh_table_fields get_view_df_def)
qed

text \<open>
  The store holds a lunch of 5 January, a bus ride of 6 January and a record without a
  date; the lower bound \<^verbatim>\<open>2025-01-06\<close> (entered with a leading blank) leaves the bus ride.
\<close>

theorem C4_filter_is_order_preserving_selection_witness:
  "bound_of example_library (from_var st_range) = Inr (Some \<lparr>year = 2025, month = 1, day = 6\<rparr>) \<and>
   bound_of example_library (to_var st_range) = Inr None \<and>
   convertible example_library (df st_range) \<and>
   fst (apply_filter example_library st_range) = None \<and>
   filtered_df (snd (apply_filter example_library st_range)) = Some [bus] \<and>
   df (snd (apply_filter example_library st_range)) = [lunch, bus, nodate]"
proof -
  have lo: "bound_of example_library (from_var st_range) =
      Inr (Some \<lparr>year = 2025, month = 1, day = 6\<rparr>)"
    by (simp add: bound_of_def st_range_def strip_def is_space_def parse_date_def Let_def fmts_def
        example_library_def iso_date_jan6)
  have hi: "bound_of example_library (to_var st_range) = Inr None"
    by (simp add: bound_of_def st_range_def strip_def)
  have conv: "convertible example_library (df st_range)"
    by (simp add: st_range_def convertible_def lunch_def bus_def nodate_def example_library_def
        iso_date_def digit_of_def days_in_month_def)
  have cat: "category_of (filter_cat_var st_range) = None"
    by (simp add: category_of_def st_range_def)
  have sel: "filter (satisfies example_library (Some \<lparr>year = 2025, month = 1, day = 6\<rparr>) None None)
      (df st_range) = [bus]"
    by (simp add: st_range_def satisfies_def record_date_def lunch_def bus_def nodate_def
        example_library_def iso_date_def digit_of_def days_in_month_def date_le_def)
  have dfs: "df st_range = [lunch, bus, nodate]" by (simp add: st_range_def)
  from C4_filter_is_order_preserving_selection [OF lo hi disjI2 [OF conv]]
  have "fst (apply_filter example_library st_range) = None \<and>
        filtered_df (snd (apply_filter example_library st_range)) = Some [bus] \<and>
        df (snd (apply_filter example_library st_range)) = df st_range"
    by (simp only: cat sel)
  with lo hi conv dfs show ?thesis by simp
qed



section \<open>Claims about loading a CSV file\<close>




text \<open>
  C7. For every CSV table that lacks at least one of the columns \<^verbatim>\<open>Date\<close>,
  \<^verbatim>\<open>Category\<close>, \<^verbatim>\<open>Amount\<close>, \<^verbatim>\<open>Description\<close>, decoding fails with the error that lists
  exactly the missing required columns, each once, in the order of the required columns.
  The check comes before any cell is looked at: the error is the same whatever the rows
  hold and whatever the conversions of the library do. \<^verbatim>\<open>on_load_csv\<close> shows the error
  and leaves the state as it is.
\<close>

theorem C7_missing_columns_named:
  assumes "\<not> set DEFAULT_COLUMNS \<subseteq> set (columns tab)"
  shows "\<exists>ms. load_csv lib tab = Inl (MissingColumns ms) \<and> ms \<noteq> [] \<and>
     set ms = set DEFAULT_COLUMNS - set (columns tab) \<and> distinct ms \<and>
     subseq ms DEFAULT_COLUMNS \<and>
     load_csv lib' (tab\<lparr>rows := rs\<rparr>) = Inl (MissingColumns ms) \<and>
     on_load_csv lib tab st = (Some (MissingColumns ms), st)"
proof -
  let ?ms = "filter (\<lambda>c. c \<notin> set (columns tab)) DEFAULT_COLUMNS"
  from assms have ne: "?ms \<noteq> []" by (auto simp: filter_empty_conv)
  then have "load_csv lib tab = Inl (MissingColumns ?ms)" for lib
    by (simp add: load_csv_def)
  moreover from ne have "load_csv lib' (tab\<lparr>rows := rs\<rparr>) = Inl (MissingColumns ?ms)"
    by (simp add: load_csv_def)
  moreover have "set ?ms = set DEFAULT_COLUMNS - set (columns tab)" by auto
  moreover have "distinct ?ms" by (simp add: DEFAULT_COLUMNS_def)
  moreover have "subseq ?ms DEFAULT_COLUMNS" by simp
  ultimately show ?thesis using ne by (simp add: on_load_csv_def)
qed

text \<open>A file without the \<^verbatim>\<open>Amount\<close> column: the error lists \<^verbatim>\<open>Amount\<close> alone.\<close>

theorem C7_missing_columns_named_witness:
  "\<not> set DEFAULT_COLUMNS \<subseteq> set (columns csv_no_amount) \<and>
   load_csv example_library csv_no_amount = Inl (MissingColumns [''Amount'']) \<and>
   on_load_csv example_library csv_no_amount st_all = (Some (MissingColumns [''Amount'']), st_all)"
proof -
  have cols: "\<not> set DEFAULT_COLUMNS \<subseteq> set (columns csv_no_amount)"
    by (simp add: DEFAULT_COLUMNS_def csv_no_amount_def)
  have run: "load_csv example_library csv_no_amount = Inl (MissingColumns [''Amount''])"
    by (simp add: load_csv_def csv_no_amount_def DEFAULT_COLUMNS_def)
  from C7_missing_columns_named [OF cols, of example_library example_library "[]" st_all] run cols
  show ?thesis by auto
qed

end
